theory Spec2Isabelle
  imports Complex_Main
begin

section \<open>Argo workflow automation: model of \<open>argoworkflows.py\<close>\<close>

text \<open>
  The script derives a namespace and a template name from a repository name, submits a
  workflow from that template, polls the run until a terminal phase or until a retry
  budget is used up, and maps the outcome to a status code. Strings are lists of
  characters (bytes); the emoji of the log messages are written as their UTF-8 bytes.
\<close>

subsection \<open>Constants\<close>

definition ARGO_HOST :: string where
  "ARGO_HOST = ''https://your-argo-server.com''"

definition MAX_RETRIES :: nat where
  "MAX_RETRIES = 120"

subsection \<open>Python's \<open>str.split(sep, maxsplit)\<close> for a one-character separator\<close>

text \<open>
  \<open>split_once c s\<close> finds the first occurrence of \<open>c\<close> in \<open>s\<close> and returns what is before
  and after it; \<open>py_split s c n\<close> is \<open>s.split(c, n)\<close>: at most \<open>n\<close> cuts, from the left,
  the rest of the string being the last part.
\<close>

fun split_once :: "char \<Rightarrow> string \<Rightarrow> (string \<times> string) option" where
  "split_once c [] = None"
| "split_once c (x # xs) =
     (if x = c then Some ([], xs)
      else (case split_once c xs of None \<Rightarrow> None | Some (a, b) \<Rightarrow> Some (x # a, b)))"

fun py_split :: "string \<Rightarrow> char \<Rightarrow> nat \<Rightarrow> string list" where
  "py_split s c 0 = [s]"
| "py_split s c (Suc n) =
     (case split_once c s of None \<Rightarrow> [s] | Some (a, b) \<Rightarrow> a # py_split b c n)"

text \<open>\<open>sep.join(parts)\<close>, used to state that splitting loses nothing.\<close>

fun py_join :: "string \<Rightarrow> string list \<Rightarrow> string" where
  "py_join sep [] = []"
| "py_join sep [p] = p"
| "py_join sep (p # q # ps) = p @ sep @ py_join sep (q # ps)"

subsection \<open>Identity and configuration derivation\<close>

definition parse_repo_name :: "string \<Rightarrow> string \<times> string" where
  "parse_repo_name repo_name =
     (let parts = py_split repo_name (CHR ''-'') 2 in
      if length parts \<ge> 2 then
        (let capability = parts ! 0;
             application = (if length parts > 2 then parts ! 1 @ ''-'' @ parts ! 2
                            else parts ! 1)
         in (capability, application))
      else (repo_name, repo_name))"

record workflow_config =
  namespace :: string
  workflow_template_name :: string
  workflow_url_base :: string

definition get_workflow_config :: "string \<Rightarrow> workflow_config" where
  "get_workflow_config repo_name =
     (let (capability, application) = parse_repo_name repo_name;
          namespace = capability @ ''-deploy-wf'';
          workflow_template_name = capability @ ''-workload-staging''
      in \<lparr> namespace = namespace,
           workflow_template_name = workflow_template_name,
           workflow_url_base = ARGO_HOST @ ''/workflows/'' @ namespace \<rparr>)"

subsection \<open>Python values, exceptions, the log and the outside world\<close>

text \<open>
  The values that \<open>json.loads\<close> produces and that flow from \<open>get_deploy_settings\<close> into
  \<open>argoSubmit\<close>. A dictionary is an association list read with \<open>map_of\<close>. A float is
  a real number here (NaN and the infinities, which \<open>json.loads\<close> accepts, are not
  represented; like every non-zero float they are truthy and are not dictionaries).
\<close>

datatype py_value =
    PNone
  | PBool bool
  | PInt int
  | PFloat real
  | PStr string
  | PList "py_value list"
  | PDict "(string \<times> py_value) list"

fun truthy :: "py_value \<Rightarrow> bool" where
  "truthy PNone = False"
| "truthy (PBool b) = b"
| "truthy (PInt i) = (i \<noteq> 0)"
| "truthy (PFloat r) = (r \<noteq> 0)"
| "truthy (PStr s) = (s \<noteq> [])"
| "truthy (PList xs) = (xs \<noteq> [])"
| "truthy (PDict kvs) = (kvs \<noteq> [])"

fun type_name :: "py_value \<Rightarrow> string" where
  "type_name PNone = ''NoneType''"
| "type_name (PBool b) = ''bool''"
| "type_name (PInt i) = ''int''"
| "type_name (PFloat r) = ''float''"
| "type_name (PStr s) = ''str''"
| "type_name (PList xs) = ''list''"
| "type_name (PDict kvs) = ''dict''"

text \<open>
  Exceptions carry their message. \<open>OtherException\<close> stands for every other subclass of
  \<open>Exception\<close> (a transport or server error of the API client, a \<open>RecursionError\<close> of
  the JSON decoder, ...).
\<close>

datatype py_exception =
    JSONDecodeError string
  | AttributeError string
  | KeyError string
  | OtherException string

fun exn_str :: "py_exception \<Rightarrow> string" where
  "exn_str (JSONDecodeError m) = m"
| "exn_str (AttributeError m) = m"
| "exn_str (KeyError m) = m"
| "exn_str (OtherException m) = m"

definition quoted :: "string \<Rightarrow> string" where
  "quoted s = CHR 0x27 # s @ [CHR 0x27]"

text \<open>
  \<open>v.get(k, d)\<close>: only a dictionary has the method; on any other value the attribute
  lookup raises \<open>AttributeError\<close>.
\<close>

fun dict_get :: "py_value \<Rightarrow> string \<Rightarrow> py_value \<Rightarrow> py_exception + py_value" where
  "dict_get (PDict kvs) k d = Inr (case map_of kvs k of None \<Rightarrow> d | Some v \<Rightarrow> v)"
| "dict_get v k d =
     Inl (AttributeError (quoted (type_name v) @ '' object has no attribute '' @ quoted ''get''))"

datatype level = Info | Warning | Error

text \<open>
  What the script does to the outside world: the records it logs (in order), the number of
  submission calls and of status fetches it has made, and the seconds it has slept.
\<close>

record world =
  logged :: "(level \<times> string) list"
  submit_calls :: nat
  fetch_calls :: nat
  slept :: nat

definition logger :: "level \<Rightarrow> string \<Rightarrow> world \<Rightarrow> world" where
  "logger lv msg w = w\<lparr>logged := logged w @ [(lv, msg)]\<rparr>"

definition sleep :: "nat \<Rightarrow> world \<Rightarrow> world" where
  "sleep secs w = w\<lparr>slept := slept w + secs\<rparr>"

definition world0 :: world where
  "world0 = \<lparr>logged = [], submit_calls = 0, fetch_calls = 0, slept = 0\<rparr>"

text \<open>The emoji of the log messages, as UTF-8 bytes.\<close>

definition emoji_sparkles :: string where
  "emoji_sparkles = [CHR 0xE2, CHR 0x9C, CHR 0xA8]"
definition emoji_stopwatch :: string where
  "emoji_stopwatch = [CHR 0xE2, CHR 0x8F, CHR 0xB1, CHR 0xEF, CHR 0xB8, CHR 0x8F]"
definition emoji_arrows :: string where
  "emoji_arrows = [CHR 0xF0, CHR 0x9F, CHR 0x94, CHR 0x84]"
definition emoji_hourglass :: string where
  "emoji_hourglass = [CHR 0xE2, CHR 0x8F, CHR 0xB3]"
definition emoji_check :: string where
  "emoji_check = [CHR 0xE2, CHR 0x9C, CHR 0x85]"
definition emoji_cross :: string where
  "emoji_cross = [CHR 0xE2, CHR 0x9D, CHR 0x8C]"
definition emoji_no_entry :: string where
  "emoji_no_entry = [CHR 0xE2, CHR 0x9B, CHR 0x94]"
definition emoji_question :: string where
  "emoji_question = [CHR 0xE2, CHR 0x9D, CHR 0x93]"
definition emoji_warning :: string where
  "emoji_warning = [CHR 0xE2, CHR 0x9A, CHR 0xA0, CHR 0xEF, CHR 0xB8, CHR 0x8F]"
definition emoji_red_circle :: string where
  "emoji_red_circle = [CHR 0xF0, CHR 0x9F, CHR 0x94, CHR 0xB4]"

subsection \<open>Settings resolution\<close>

text \<open>
  \<open>json.loads\<close> belongs to the Python library, not to the script: it is the parameter
  \<open>loads\<close>, which returns the decoded value or the exception it raises.
\<close>

definition default_settings :: py_value where
  "default_settings = PDict [(''app_branch'', PStr ''main'')]"

definition get_deploy_settings ::
  "(string \<Rightarrow> py_exception + py_value) \<Rightarrow> string option \<Rightarrow> string \<Rightarrow> world
     \<Rightarrow> (py_exception + py_value) \<times> world" where
  "get_deploy_settings loads settings_json branch w =
     (case settings_json of
        None \<Rightarrow> (Inr default_settings, w)
      | Some s \<Rightarrow>
          if s = [] then (Inr default_settings, w)
          else
            (case loads s of
               Inl (JSONDecodeError m) \<Rightarrow>
                 (Inr default_settings, logger Error (''Error parsing settings: '' @ m) w)
             | Inl e \<Rightarrow> (Inl e, w)
             | Inr settings \<Rightarrow>
                 (case dict_get settings ''main'' default_settings of
                    Inl e \<Rightarrow> (Inl e, w)
                  | Inr fallback \<Rightarrow>
                      (case dict_get settings branch fallback of
                         Inl e \<Rightarrow> (Inl e, w)
                       | Inr v \<Rightarrow> (Inr v, w)))))"

subsection \<open>The submission request\<close>

definition prepare_workflow_parameters :: "string \<Rightarrow> string \<Rightarrow> py_value \<Rightarrow> string list" where
  "prepare_workflow_parameters environment application app_branch =
     [''environment='' @ environment, ''application='' @ application, ''log_level=info'']"

record submit_opts =
  parameters :: "string list"
  labels :: string

record template_ref =
  template_name :: string

record submit_request =
  resource_kind :: string
  resource_name :: string
  submit_options :: submit_opts
  workflow_template_ref :: template_ref

definition create_workflow_request :: "string list \<Rightarrow> string \<Rightarrow> submit_request" where
  "create_workflow_request params wf_template_name =
     (let submit_opts =
            \<lparr> parameters = params,
              labels = ''workflows.argoproj.io/creator-email=automation@example.com'' \<rparr>;
          template_ref = \<lparr> template_name = wf_template_name \<rparr>
      in \<lparr> resource_kind = ''WorkflowTemplate'',
           resource_name = wf_template_name,
           submit_options = submit_opts,
           workflow_template_ref = template_ref \<rparr>)"

subsection \<open>The workflow service\<close>

text \<open>
  The remote service is a parameter. A submission answers with the metadata of the run
  or raises; a status fetch answers with a workflow (its \<open>status\<close> dictionary), with
  nothing (a falsy answer), or raises. The answer to a fetch may change from call to
  call: it depends on the number of fetches made before. \<open>configure_api_client\<close> binds
  the token to the client, so the server is a function of the token. The parameter that
  the source calls \<open>namespace\<close> is \<open>ns\<close> here, the name being taken by the field of
  \<open>workflow_config\<close>.
\<close>

record api_response =
  metadata :: "string \<rightharpoonup> string"

record workflow =
  status :: "string \<rightharpoonup> string"

record api_instance =
  api_submit_workflow :: "string \<Rightarrow> submit_request \<Rightarrow> py_exception + api_response"
  api_get_workflow :: "nat \<Rightarrow> string \<Rightarrow> string \<Rightarrow> py_exception + workflow option"

definition configure_api_client :: "(string \<Rightarrow> api_instance) \<Rightarrow> string \<Rightarrow> api_instance" where
  "configure_api_client server argo_token = server argo_token"

text \<open>
  \<open>submit_workflow\<close> returns the triple \<open>(None, None, None)\<close> on any exception, also on
  the \<open>KeyError\<close> of a missing metadata key: that triple is \<open>None\<close> here.
\<close>

definition submit_workflow ::
  "api_instance \<Rightarrow> submit_request \<Rightarrow> string \<Rightarrow> world
     \<Rightarrow> (string \<times> string \<times> api_response) option \<times> world" where
  "submit_workflow api_instance submit_request ns w =
     (let w1 = w\<lparr>submit_calls := Suc (submit_calls w)\<rparr>;
          failed = (\<lambda>e. (None, logger Error (''Workflow submission failed: '' @ exn_str e) w1))
      in case api_submit_workflow api_instance ns submit_request of
           Inl e \<Rightarrow> failed e
         | Inr api_response \<Rightarrow>
             (case metadata api_response ''name'' of
                None \<Rightarrow> failed (KeyError (quoted ''name''))
              | Some workflow_name \<Rightarrow>
                  (case metadata api_response ''namespace'' of
                     None \<Rightarrow> failed (KeyError (quoted ''namespace''))
                   | Some workflow_namespace \<Rightarrow>
                       (Some (workflow_name, workflow_namespace, api_response),
                        logger Info (emoji_sparkles @ '' Workflow submitted: '' @ workflow_name
                                     @ '' in '' @ workflow_namespace) w1))))"

definition get_workflow_status ::
  "api_instance \<Rightarrow> string \<Rightarrow> string \<Rightarrow> world \<Rightarrow> (py_exception + workflow option) \<times> world" where
  "get_workflow_status api_instance ns workflow_name w =
     (api_get_workflow api_instance (fetch_calls w) ns workflow_name,
      w\<lparr>fetch_calls := Suc (fetch_calls w)\<rparr>)"

subsection \<open>The poll loop\<close>

definition status_emojis :: "(string \<times> string) list" where
  "status_emojis =
     [(''Running'', emoji_arrows), (''Pending'', emoji_hourglass),
      (''Succeeded'', emoji_check), (''Failed'', emoji_cross), (''Error'', emoji_no_entry)]"

definition phase_of :: "workflow \<Rightarrow> string" where
  "phase_of workflow_status =
     (case status workflow_status ''phase'' of None \<Rightarrow> ''Unknown'' | Some p \<Rightarrow> p)"

text \<open>
  The \<open>while retry_count < MAX_RETRIES\<close> loop, from the value \<open>retry_count\<close> on. An
  exception of the fetch is not caught here and leaves the loop.
\<close>

function poll_loop ::
  "api_instance \<Rightarrow> string \<Rightarrow> string \<Rightarrow> nat \<Rightarrow> world
     \<Rightarrow> (py_exception + workflow option) \<times> world" where
  "poll_loop api_instance workflow_name ns retry_count w =
     (if retry_count < MAX_RETRIES then
        (case get_workflow_status api_instance ns workflow_name w of
           (Inl e, w1) \<Rightarrow> (Inl e, w1)
         | (Inr None, w1) \<Rightarrow>
             poll_loop api_instance workflow_name ns (retry_count + 1) (sleep 5 w1)
         | (Inr (Some workflow_status), w1) \<Rightarrow>
             (let status_phase = phase_of workflow_status;
                  emoji = (case map_of status_emojis status_phase of
                             None \<Rightarrow> emoji_question | Some e \<Rightarrow> e);
                  w2 = logger Info (''Status: '' @ emoji @ '' '' @ status_phase) w1
              in if status_phase \<in> set [''Succeeded'', ''Failed'', ''Error'']
                 then (Inr (Some workflow_status), w2)
                 else poll_loop api_instance workflow_name ns (retry_count + 1)
                        (sleep (if retry_count < 10 then 5 else 10) w2)))
      else (Inr None, logger Warning (emoji_warning @ '' Max polling attempts reached'') w))"
  by pat_completeness auto
termination
  by (relation "measure (\<lambda>(api_instance, workflow_name, ns, retry_count, w).
                  MAX_RETRIES - retry_count)") auto

declare poll_loop.simps [simp del]

definition poll_workflow_status ::
  "api_instance \<Rightarrow> string \<Rightarrow> string \<Rightarrow> string option \<Rightarrow> world
     \<Rightarrow> (py_exception + workflow option) \<times> world" where
  "poll_workflow_status api_instance workflow_name ns url_base w =
     poll_loop api_instance workflow_name ns 0
       (logger Info (emoji_stopwatch @ '' Monitoring workflow progress...'') w)"

subsection \<open>The whole operation\<close>

text \<open>
  The body of \<open>argoSubmit\<close> runs under \<open>try ... except Exception\<close>: \<open>unexpected\<close> is
  the handler. The two places of the body that can raise are the \<open>get\<close> on the deploy
  settings and the status fetch inside the poll loop.
\<close>

definition unexpected :: "py_exception \<Rightarrow> world \<Rightarrow> (int \<times> string \<times> string) \<times> world" where
  "unexpected e w =
     ((1, [], []), logger Error (emoji_red_circle @ '' Unexpected error: '' @ exn_str e) w)"

definition argoSubmit ::
  "(string \<Rightarrow> api_instance) \<Rightarrow> string \<Rightarrow> string \<Rightarrow> string \<Rightarrow> py_value \<Rightarrow> world
     \<Rightarrow> (int \<times> string \<times> string) \<times> world" where
  "argoSubmit server argo_token repo_name environment deploy_settings w =
     (let workflow_config = get_workflow_config repo_name;
          ns = namespace workflow_config;
          wf_template_name = workflow_template_name workflow_config;
          url_base = workflow_url_base workflow_config;
          (capability, application) = parse_repo_name repo_name;
          api_instance = configure_api_client server argo_token
      in case (if truthy deploy_settings
               then dict_get deploy_settings ''app_branch'' (PStr ''main'')
               else Inr (PStr ''main'')) of
           Inl e \<Rightarrow> unexpected e w
         | Inr app_branch \<Rightarrow>
             (let params = prepare_workflow_parameters environment application app_branch;
                  submit_request = create_workflow_request params wf_template_name
              in case submit_workflow api_instance submit_request ns w of
                   (None, w1) \<Rightarrow> ((1, [], []), w1)
                 | (Some (workflow_name, run_ns, api_response), w1) \<Rightarrow>
                     (case poll_workflow_status api_instance workflow_name run_ns
                             (Some url_base) w1 of
                        (Inl e, w2) \<Rightarrow> unexpected e w2
                      | (Inr final_status, w2) \<Rightarrow>
                          (let workflow_url = url_base @ ''/'' @ workflow_name
                           in case final_status of
                                Some st \<Rightarrow>
                                  (let final_phase = phase_of st
                                   in if final_phase = ''Succeeded'' then
                                        ((0, workflow_name, workflow_url),
                                         logger Info
                                           (emoji_check @ '' Workflow completed successfully!'') w2)
                                      else if final_phase \<in> set [''Running'', ''Pending''] then
                                        ((0, workflow_name, workflow_url),
                                         logger Warning
                                           (emoji_hourglass @ '' Workflow is still in progress'') w2)
                                      else
                                        ((1, workflow_name, workflow_url),
                                         logger Error
                                           (emoji_cross @ '' Workflow failed with status: ''
                                            @ final_phase) w2))
                              | None \<Rightarrow>
                                  ((1, workflow_name, workflow_url),
                                   logger Error
                                     (emoji_cross @ '' Workflow status could not be determined'')
                                     w2)))))"

subsection \<open>Notions used in the statements\<close>

text \<open>
  A phase is terminal when the loop returns on it. An answer of the status source is
  non-terminal when the loop goes on after it: a falsy answer, or a workflow whose phase
  (\<open>Unknown\<close> when the key is missing) is not terminal. \<open>status_line\<close> is the record
  the loop logs for a workflow.
\<close>

definition is_terminal :: "workflow \<Rightarrow> bool" where
  "is_terminal workflow_status \<longleftrightarrow>
     phase_of workflow_status \<in> set [''Succeeded'', ''Failed'', ''Error'']"

definition non_terminal_answer :: "py_exception + workflow option \<Rightarrow> bool" where
  "non_terminal_answer r =
     (case r of Inl e \<Rightarrow> False | Inr None \<Rightarrow> True | Inr (Some st) \<Rightarrow> \<not> is_terminal st)"

definition status_line :: "workflow \<Rightarrow> string" where
  "status_line st =
     ''Status: ''
       @ (case map_of status_emojis (phase_of st) of None \<Rightarrow> emoji_question | Some e \<Rightarrow> e)
       @ '' '' @ phase_of st"

text \<open>
  Deploy settings on which \<open>argoSubmit\<close> does not raise: a falsy value (the \<open>get\<close> is
  skipped) or a dictionary.
\<close>

fun is_dict :: "py_value \<Rightarrow> bool" where
  "is_dict (PDict kvs) = True"
| "is_dict v = False"

definition settings_usable :: "py_value \<Rightarrow> bool" where
  "settings_usable deploy_settings \<longleftrightarrow> \<not> truthy deploy_settings \<or> is_dict deploy_settings"

text \<open>The record that only the \<open>Running\<close>/\<open>Pending\<close> branch of \<open>argoSubmit\<close> logs.\<close>

definition still_in_progress :: "level \<times> string" where
  "still_in_progress = (Warning, emoji_hourglass @ '' Workflow is still in progress'')"

text \<open>
  The request that \<open>argoSubmit\<close> builds for a repository and an environment (the branch
  argument of \<open>prepare_workflow_parameters\<close> is not used by it).
\<close>

definition submitted_request :: "string \<Rightarrow> string \<Rightarrow> submit_request" where
  "submitted_request repo_name environment =
     create_workflow_request
       (prepare_workflow_parameters environment (snd (parse_repo_name repo_name)) (PStr ''main''))
       (workflow_template_name (get_workflow_config repo_name))"

subsection \<open>Example services\<close>

text \<open>
  A workflow with a given phase, the metadata of a submitted run, and a service made of
  one answer to the submission and a sequence of answers to the status fetches.
\<close>

definition wf_with_phase :: "string \<Rightarrow> workflow" where
  "wf_with_phase p = \<lparr> status = [''phase'' \<mapsto> p] \<rparr>"

definition run_metadata :: api_response where
  "run_metadata = \<lparr> metadata = [''name'' \<mapsto> ''deploy-x7k2p'', ''namespace'' \<mapsto> ''api-deploy-wf''] \<rparr>"

definition service ::
  "py_exception + api_response \<Rightarrow> (nat \<Rightarrow> py_exception + workflow option) \<Rightarrow> string
     \<Rightarrow> api_instance" where
  "service submit_answer fetch_answers argo_token =
     \<lparr> api_submit_workflow = (\<lambda>ns submit_request. submit_answer),
       api_get_workflow = (\<lambda>k ns workflow_name. fetch_answers k) \<rparr>"

definition always_running :: "nat \<Rightarrow> py_exception + workflow option" where
  "always_running k = Inr (Some (wf_with_phase ''Running''))"

definition succeeded_on_third :: "nat \<Rightarrow> py_exception + workflow option" where
  "succeeded_on_third k =
     (if k = 0 then Inr (Some (wf_with_phase ''Pending''))
      else if k = 1 then Inr (Some (wf_with_phase ''Running''))
      else Inr (Some (wf_with_phase ''Succeeded'')))"

definition always_succeeded :: "nat \<Rightarrow> py_exception + workflow option" where
  "always_succeeded k = Inr (Some (wf_with_phase ''Succeeded''))"

definition running_then_succeeded :: "nat \<Rightarrow> py_exception + workflow option" where
  "running_then_succeeded k =
     (if k < 120 then Inr (Some (wf_with_phase ''Running''))
      else Inr (Some (wf_with_phase ''Succeeded'')))"

subsection \<open>Facts about splitting\<close>

lemma split_once_None_iff: "split_once c s = None \<longleftrightarrow> c \<notin> set s"
  by (induction s) (auto split: option.splits)

lemma split_once_SomeD: "split_once c s = Some (a, b) \<Longrightarrow> s = a @ c # b \<and> c \<notin> set a"
  by (induction s arbitrary: a) (auto split: if_splits option.splits)

lemma split_once_append: "c \<notin> set a \<Longrightarrow> split_once c (a @ c # b) = Some (a, b)"
  by (induction a) auto

lemma py_split_no_sep: "c \<notin> set s \<Longrightarrow> py_split s c n = [s]"
  using split_once_None_iff [of c s] by (cases n) simp_all

lemma py_split_length_le: "length (py_split s c n) \<le> Suc n"
  by (induction n arbitrary: s) (auto split: option.splits)

lemma py_split_length_pos: "1 \<le> length (py_split s c n)"
  by (cases n) (auto split: option.splits)

lemma py_join_Cons: "py_join sep (p # ps) = (if ps = [] then p else p @ sep @ py_join sep ps)"
  by (cases ps) simp_all

lemma py_join_py_split: "py_join [c] (py_split s c n) = s"
proof (induction n arbitrary: s)
  case 0
  then show ?case by simp
next
  case (Suc n)
  show ?case
  proof (cases "split_once c s")
    case None
    then show ?thesis by simp
  next
    case (Some ab)
    obtain a b where ab: "ab = (a, b)" by (cases ab)
    have ne: "py_split b c n \<noteq> []" using py_split_length_pos [of b c n] by auto
    have "s = a @ c # b" using Some ab split_once_SomeD by blast
    then show ?thesis using Some ab ne Suc.IH [of b] by (simp add: py_join_Cons)
  qed
qed

lemma parse_repo_name_no_hyphen:
  "CHR ''-'' \<notin> set repo_name \<Longrightarrow> parse_repo_name repo_name = (repo_name, repo_name)"
  by (simp add: parse_repo_name_def py_split_no_sep)

lemma py_split_two:
  "c \<notin> set a \<Longrightarrow>
   py_split (a @ c # b) c 2 =
     (case split_once c b of None \<Rightarrow> [a, b] | Some (p, q) \<Rightarrow> [a, p, q])"
  by (simp add: numeral_2_eq_2 split_once_append split: option.splits)

lemma parse_repo_name_hyphen:
  assumes "CHR ''-'' \<notin> set a"
  shows "parse_repo_name (a @ CHR ''-'' # b) = (a, b)"
proof (cases "split_once (CHR ''-'') b")
  case None
  then show ?thesis using assms by (simp add: parse_repo_name_def py_split_two)
next
  case (Some pq)
  obtain p q where pq: "pq = (p, q)" by (cases pq)
  have "b = p @ CHR ''-'' # q" using Some pq split_once_SomeD by blast
  then show ?thesis using assms Some pq by (simp add: parse_repo_name_def py_split_two)
qed

lemma split_first_hyphen:
  "c \<in> set s \<Longrightarrow> \<exists>a b. s = a @ c # b \<and> c \<notin> set a"
  using split_list_first [of c s] by blast

subsection \<open>Facts about the poll loop\<close>

lemma poll_loop_unfold:
  "poll_loop api nm ns rc w =
     (if rc < MAX_RETRIES then
        (case api_get_workflow api (fetch_calls w) ns nm of
           Inl e \<Rightarrow> (Inl e, w\<lparr>fetch_calls := Suc (fetch_calls w)\<rparr>)
         | Inr None \<Rightarrow> poll_loop api nm ns (Suc rc) (sleep 5 (w\<lparr>fetch_calls := Suc (fetch_calls w)\<rparr>))
         | Inr (Some st) \<Rightarrow>
             if is_terminal st
             then (Inr (Some st), logger Info (status_line st) (w\<lparr>fetch_calls := Suc (fetch_calls w)\<rparr>))
             else poll_loop api nm ns (Suc rc)
                    (sleep (if rc < 10 then 5 else 10)
                       (logger Info (status_line st) (w\<lparr>fetch_calls := Suc (fetch_calls w)\<rparr>))))
      else (Inr None, logger Warning (emoji_warning @ '' Max polling attempts reached'') w))"
  by (subst poll_loop.simps)
     (simp add: get_workflow_status_def is_terminal_def status_line_def Let_def
           split: sum.splits option.splits)

lemma world_simps [simp]:
  "fetch_calls (logger lv m w) = fetch_calls w"
  "submit_calls (logger lv m w) = submit_calls w"
  "slept (logger lv m w) = slept w"
  "logged (logger lv m w) = logged w @ [(lv, m)]"
  "fetch_calls (sleep n w) = fetch_calls w"
  "submit_calls (sleep n w) = submit_calls w"
  "slept (sleep n w) = slept w + n"
  "logged (sleep n w) = logged w"
  by (simp_all add: logger_def sleep_def)

lemma poll_loop_exhausts:
  assumes "\<forall>k. non_terminal_answer (api_get_workflow api k ns nm)"
  shows "MAX_RETRIES - rc = d \<Longrightarrow>
         fst (poll_loop api nm ns rc w) = Inr None \<and>
         fetch_calls (snd (poll_loop api nm ns rc w)) = fetch_calls w + d"
proof (induction d arbitrary: rc w)
  case 0
  then have "\<not> rc < MAX_RETRIES" by simp
  then show ?case by (subst (1 2) poll_loop_unfold) simp
next
  case (Suc d)
  then have lt: "rc < MAX_RETRIES" and d: "MAX_RETRIES - Suc rc = d" by simp_all
  have nt: "non_terminal_answer (api_get_workflow api (fetch_calls w) ns nm)"
    using assms by blast
  show ?case
  proof (cases "api_get_workflow api (fetch_calls w) ns nm")
    case (Inl e)
    then show ?thesis using nt by (simp add: non_terminal_answer_def)
  next
    case (Inr r)
    show ?thesis
    proof (cases r)
      case None
      then show ?thesis
        using Inr lt Suc.IH [OF d] by (subst (1 2) poll_loop_unfold) simp
    next
      case (Some st)
      then have "\<not> is_terminal st" using nt Inr by (simp add: non_terminal_answer_def)
      then show ?thesis
        using Inr Some lt Suc.IH [OF d] by (subst (1 2) poll_loop_unfold) simp
    qed
  qed
qed

lemma poll_loop_exhausts_window:
  "MAX_RETRIES - rc = d \<Longrightarrow>
   \<forall>k<d. non_terminal_answer (api_get_workflow api (fetch_calls w + k) ns nm) \<Longrightarrow>
   fst (poll_loop api nm ns rc w) = Inr None \<and>
   fetch_calls (snd (poll_loop api nm ns rc w)) = fetch_calls w + d"
proof (induction d arbitrary: rc w)
  case 0
  then have "\<not> rc < MAX_RETRIES" by simp
  then show ?case by (subst (1 2) poll_loop_unfold) simp
next
  case (Suc d)
  have lt: "rc < MAX_RETRIES" and d: "MAX_RETRIES - Suc rc = d" using Suc.prems(1) by simp_all
  have nt: "non_terminal_answer (api_get_workflow api (fetch_calls w) ns nm)"
    using Suc.prems(2) by force
  have rest: "\<forall>k<d. non_terminal_answer (api_get_workflow api (Suc (fetch_calls w) + k) ns nm)"
    using Suc.prems(2) by force
  have step: "fetch_calls w' = Suc (fetch_calls w) \<Longrightarrow>
        fst (poll_loop api nm ns (Suc rc) w') = Inr None \<and>
        fetch_calls (snd (poll_loop api nm ns (Suc rc) w')) = fetch_calls w + Suc d" for w'
    using Suc.IH [of "Suc rc" w'] d rest by simp
  show ?case
  proof (cases "api_get_workflow api (fetch_calls w) ns nm")
    case (Inl e)
    then show ?thesis using nt by (simp add: non_terminal_answer_def)
  next
    case (Inr r)
    show ?thesis
    proof (cases r)
      case None
      then show ?thesis
        using Inr lt step by (subst (1 2) poll_loop_unfold) simp
    next
      case (Some st)
      then have "\<not> is_terminal st" using nt Inr by (simp add: non_terminal_answer_def)
      then show ?thesis
        using Inr Some lt step by (subst (1 2) poll_loop_unfold) simp
    qed
  qed
qed

lemma poll_loop_reaches:
  "rc + j < MAX_RETRIES \<Longrightarrow>
   \<forall>i<j. non_terminal_answer (api_get_workflow api (fetch_calls w + i) ns nm) \<Longrightarrow>
   api_get_workflow api (fetch_calls w + j) ns nm = Inr (Some st) \<Longrightarrow>
   is_terminal st \<Longrightarrow>
   fst (poll_loop api nm ns rc w) = Inr (Some st) \<and>
   fetch_calls (snd (poll_loop api nm ns rc w)) = fetch_calls w + Suc j"
proof (induction j arbitrary: rc w)
  case 0
  then show ?case by (subst (1 2) poll_loop_unfold) simp
next
  case (Suc j)
  have lt: "rc < MAX_RETRIES" and lt': "Suc rc + j < MAX_RETRIES" using Suc.prems(1) by simp_all
  have nt: "non_terminal_answer (api_get_workflow api (fetch_calls w) ns nm)"
    using Suc.prems(2) by force
  have rest: "\<forall>i<j. non_terminal_answer (api_get_workflow api (Suc (fetch_calls w) + i) ns nm)"
    using Suc.prems(2) by force
  have tgt: "api_get_workflow api (Suc (fetch_calls w) + j) ns nm = Inr (Some st)"
    using Suc.prems(3) by simp
  have step: "fetch_calls w' = Suc (fetch_calls w) \<Longrightarrow>
        fst (poll_loop api nm ns (Suc rc) w') = Inr (Some st) \<and>
        fetch_calls (snd (poll_loop api nm ns (Suc rc) w')) = fetch_calls w + Suc (Suc j)" for w'
    using Suc.IH [of "Suc rc" w'] lt' rest tgt Suc.prems(4) by simp
  show ?case
  proof (cases "api_get_workflow api (fetch_calls w) ns nm")
    case (Inl e)
    then show ?thesis using nt by (simp add: non_terminal_answer_def)
  next
    case (Inr r)
    show ?thesis
    proof (cases r)
      case None
      then show ?thesis
        using Inr lt step by (subst (1 2) poll_loop_unfold) simp
    next
      case (Some st')
      then have "\<not> is_terminal st'" using nt Inr by (simp add: non_terminal_answer_def)
      then show ?thesis
        using Inr Some lt step by (subst (1 2) poll_loop_unfold) simp
    qed
  qed
qed

lemma poll_loop_returns_terminal:
  "MAX_RETRIES - rc = d \<Longrightarrow> fst (poll_loop api nm ns rc w) = Inr (Some st) \<Longrightarrow> is_terminal st"
proof (induction d arbitrary: rc w)
  case 0
  then have "\<not> rc < MAX_RETRIES" by simp
  then show ?case using "0.prems"(2) by (subst (asm) poll_loop_unfold) simp
next
  case (Suc d)
  then have lt: "rc < MAX_RETRIES" and d: "MAX_RETRIES - Suc rc = d" by simp_all
  show ?case
    using Suc.prems(2) lt Suc.IH [OF d]
    by (subst (asm) poll_loop_unfold) (auto split: sum.splits option.splits if_splits)
qed

lemma count_logger:
  "count_list (logged (logger lv m w)) x =
     count_list (logged w) x + (if (lv, m) = x then 1 else 0)"
  by simp

lemma still_in_progress_not_max:
  "(Warning, emoji_warning @ '' Max polling attempts reached'') \<noteq> still_in_progress"
  by (simp add: still_in_progress_def emoji_warning_def emoji_hourglass_def)

lemma poll_loop_frame:
  "MAX_RETRIES - rc = d \<Longrightarrow>
   count_list (logged (snd (poll_loop api nm ns rc w))) still_in_progress =
     count_list (logged w) still_in_progress \<and>
   submit_calls (snd (poll_loop api nm ns rc w)) = submit_calls w"
proof (induction d arbitrary: rc w)
  case 0
  then have "\<not> rc < MAX_RETRIES" by simp
  then show ?case
    using still_in_progress_not_max by (subst (1 2) poll_loop_unfold) simp
next
  case (Suc d)
  then have lt: "rc < MAX_RETRIES" and d: "MAX_RETRIES - Suc rc = d" by simp_all
  have info: "(Info, m) \<noteq> still_in_progress" for m
    by (simp add: still_in_progress_def)
  show ?case
    using lt Suc.IH [OF d] info
    by (subst (1 2) poll_loop_unfold) (simp split: sum.splits option.splits)
qed

subsection \<open>Facts about the whole operation\<close>

lemma prepare_ignores_branch:
  "prepare_workflow_parameters environment application b =
   prepare_workflow_parameters environment application (PStr ''main'')"
  by (simp add: prepare_workflow_parameters_def)

lemma argoSubmit_unusable:
  "\<not> settings_usable ds \<Longrightarrow>
   argoSubmit server tok repo env ds w =
     unexpected (AttributeError (quoted (type_name ds) @ '' object has no attribute ''
                                 @ quoted ''get'')) w"
  by (cases ds) (simp_all add: settings_usable_def argoSubmit_def Let_def split_def)

lemma argoSubmit_usable:
  "settings_usable ds \<Longrightarrow>
   argoSubmit server tok repo env ds w =
     (case submit_workflow (server tok) (submitted_request repo env)
             (namespace (get_workflow_config repo)) w of
        (None, w1) \<Rightarrow> ((1, [], []), w1)
      | (Some (workflow_name, run_ns, api_response), w1) \<Rightarrow>
          (case poll_workflow_status (server tok) workflow_name run_ns
                  (Some (workflow_url_base (get_workflow_config repo))) w1 of
             (Inl e, w2) \<Rightarrow> unexpected e w2
           | (Inr None, w2) \<Rightarrow>
               ((1, workflow_name, workflow_url_base (get_workflow_config repo) @ ''/'' @ workflow_name),
                logger Error (emoji_cross @ '' Workflow status could not be determined'') w2)
           | (Inr (Some st), w2) \<Rightarrow>
               if phase_of st = ''Succeeded'' then
                 ((0, workflow_name, workflow_url_base (get_workflow_config repo) @ ''/'' @ workflow_name),
                  logger Info (emoji_check @ '' Workflow completed successfully!'') w2)
               else if phase_of st \<in> set [''Running'', ''Pending''] then
                 ((0, workflow_name, workflow_url_base (get_workflow_config repo) @ ''/'' @ workflow_name),
                  logger Warning (snd still_in_progress) w2)
               else
                 ((1, workflow_name, workflow_url_base (get_workflow_config repo) @ ''/'' @ workflow_name),
                  logger Error (emoji_cross @ '' Workflow failed with status: '' @ phase_of st) w2)))"
proof -
  assume u: "settings_usable ds"
  have b: "(if truthy ds then dict_get ds ''app_branch'' (PStr ''main'') else Inr (PStr ''main''))
             = Inr (case ds of PDict kvs \<Rightarrow> (if kvs = [] then PStr ''main'' else
                      (case map_of kvs ''app_branch'' of None \<Rightarrow> PStr ''main'' | Some v \<Rightarrow> v))
                    | _ \<Rightarrow> PStr ''main'')"
    using u by (cases ds) (simp_all add: settings_usable_def)
  show ?thesis
    unfolding argoSubmit_def Let_def split_def b submitted_request_def configure_api_client_def
              still_in_progress_def
    by (simp add: prepare_workflow_parameters_def split: prod.splits option.splits sum.splits)
qed

lemma submit_workflow_raises:
  "api_submit_workflow api ns req = Inl e \<Longrightarrow>
   submit_workflow api req ns w =
     (None, logger Error (''Workflow submission failed: '' @ exn_str e)
              (w\<lparr>submit_calls := Suc (submit_calls w)\<rparr>))"
  by (simp add: submit_workflow_def)

lemma submit_workflow_ok:
  "api_submit_workflow api ns req = Inr resp \<Longrightarrow>
   metadata resp ''name'' = Some nm \<Longrightarrow> metadata resp ''namespace'' = Some rns \<Longrightarrow>
   submit_workflow api req ns w =
     (Some (nm, rns, resp),
      logger Info (emoji_sparkles @ '' Workflow submitted: '' @ nm @ '' in '' @ rns)
        (w\<lparr>submit_calls := Suc (submit_calls w)\<rparr>))"
  by (simp add: submit_workflow_def)

lemma submit_workflow_frame:
  "submit_workflow api req ns w = (r, w1) \<Longrightarrow>
   count_list (logged w1) still_in_progress = count_list (logged w) still_in_progress \<and>
   submit_calls w1 = Suc (submit_calls w) \<and> fetch_calls w1 = fetch_calls w \<and> slept w1 = slept w"
  by (auto simp add: submit_workflow_def Let_def still_in_progress_def
           split: sum.splits option.splits)

lemma poll_workflow_status_frame:
  assumes "poll_workflow_status api nm ns ub w = (r, w2)"
  shows "count_list (logged w2) still_in_progress = count_list (logged w) still_in_progress"
    and "submit_calls w2 = submit_calls w"
    and "r = Inr (Some st) \<Longrightarrow> is_terminal st"
proof -
  let ?w = "logger Info (emoji_stopwatch @ '' Monitoring workflow progress...'') w"
  have p: "poll_loop api nm ns 0 ?w = (r, w2)"
    using assms by (simp add: poll_workflow_status_def)
  have "count_list (logged ?w) still_in_progress = count_list (logged w) still_in_progress"
    by (simp add: still_in_progress_def)
  then show "count_list (logged w2) still_in_progress = count_list (logged w) still_in_progress"
    using poll_loop_frame [of 0 MAX_RETRIES api nm ns ?w] p by simp
  show "submit_calls w2 = submit_calls w"
    using poll_loop_frame [of 0 MAX_RETRIES api nm ns ?w] p by simp
  show "r = Inr (Some st) \<Longrightarrow> is_terminal st"
    using poll_loop_returns_terminal [of 0 MAX_RETRIES api nm ns ?w st] p by simp
qed

lemma terminal_not_in_progress:
  "is_terminal st \<Longrightarrow> phase_of st \<notin> set [''Running'', ''Pending'']"
  by (auto simp add: is_terminal_def)

lemma unexpected_frame:
  "count_list (logged (snd (unexpected e w))) still_in_progress =
     count_list (logged w) still_in_progress"
  by (simp add: unexpected_def still_in_progress_def)

lemma argoSubmit_progress_branch_dead:
  "count_list (logged (snd (argoSubmit server tok repo env ds w))) still_in_progress =
     count_list (logged w) still_in_progress"
proof (cases "settings_usable ds")
  case False
  then show ?thesis by (simp add: argoSubmit_unusable unexpected_frame)
next
  case True
  obtain r w1 where s: "submit_workflow (server tok) (submitted_request repo env)
             (namespace (get_workflow_config repo)) w = (r, w1)"
    by (cases "submit_workflow (server tok) (submitted_request repo env)
             (namespace (get_workflow_config repo)) w")
  have c1: "count_list (logged w1) still_in_progress = count_list (logged w) still_in_progress"
    using submit_workflow_frame [OF s] by simp
  show ?thesis
  proof (cases r)
    case None
    then show ?thesis using True s c1 by (simp add: argoSubmit_usable)
  next
    case (Some t)
    obtain nm rns resp where t: "t = (nm, rns, resp)" by (cases t)
    obtain q w2 where p: "poll_workflow_status (server tok) nm rns
                  (Some (workflow_url_base (get_workflow_config repo))) w1 = (q, w2)"
      by (cases "poll_workflow_status (server tok) nm rns
                  (Some (workflow_url_base (get_workflow_config repo))) w1")
    have c2: "count_list (logged w2) still_in_progress = count_list (logged w) still_in_progress"
      using poll_workflow_status_frame(1) [OF p] c1 by simp
    have dead: "q = Inr (Some st) \<Longrightarrow> phase_of st \<notin> set [''Running'', ''Pending'']" for st
      using poll_workflow_status_frame(3) [OF p] terminal_not_in_progress by blast
    have e: "(Error, m) \<noteq> still_in_progress" "(Info, m) \<noteq> still_in_progress" for m
      by (simp_all add: still_in_progress_def)
    show ?thesis
    proof (cases q)
      case (Inl ex)
      then show ?thesis using True s Some t p c2 by (simp add: argoSubmit_usable unexpected_frame)
    next
      case (Inr fs)
      show ?thesis
      proof (cases fs)
        case None
        then show ?thesis using True s Some t p c2 Inr e by (simp add: argoSubmit_usable)
      next
        case (Some st)
        have "phase_of st \<noteq> ''Running''" "phase_of st \<noteq> ''Pending''"
          using dead [of st] Inr Some by simp_all
        then show ?thesis
          using True s \<open>r = Some t\<close> t p c2 Inr Some e by (simp add: argoSubmit_usable)
      qed
    qed
  qed
qed

subsection \<open>Facts about the example services\<close>

lemma example_config:
  "parse_repo_name ''api-service'' = (''api'', ''service'')"
  "namespace (get_workflow_config ''api-service'') = ''api-deploy-wf''"
  "workflow_url_base (get_workflow_config ''api-service'')
     = ''https://your-argo-server.com/workflows/api-deploy-wf''"
proof -
  have "CHR ''-'' \<notin> set ''api''" by simp
  from parse_repo_name_hyphen [OF this, of "''service''"]
  show p: "parse_repo_name ''api-service'' = (''api'', ''service'')" by simp
  show "namespace (get_workflow_config ''api-service'') = ''api-deploy-wf''"
    by (simp add: get_workflow_config_def p Let_def)
  show "workflow_url_base (get_workflow_config ''api-service'')
     = ''https://your-argo-server.com/workflows/api-deploy-wf''"
    by (simp add: get_workflow_config_def p ARGO_HOST_def Let_def)
qed

lemma example_phases:
  "phase_of (wf_with_phase p) = p"
  "is_terminal (wf_with_phase ''Succeeded'')"
  "\<not> is_terminal (wf_with_phase ''Running'')"
  "\<not> is_terminal (wf_with_phase ''Pending'')"
  by (simp_all add: phase_of_def wf_with_phase_def is_terminal_def)

lemma example_service:
  "api_submit_workflow (service a f tok) ns req = a"
  "api_get_workflow (service a f tok) k ns nm = f k"
  by (simp_all add: service_def)

lemma example_metadata:
  "metadata run_metadata ''name'' = Some ''deploy-x7k2p''"
  "metadata run_metadata ''namespace'' = Some ''api-deploy-wf''"
  by (simp_all add: run_metadata_def)

lemma poll_succeeded_on_third:
  "fst (poll_workflow_status (service a succeeded_on_third tok) nm ns ub world0)
     = Inr (Some (wf_with_phase ''Succeeded''))"
proof -
  let ?w = "logger Info (emoji_stopwatch @ '' Monitoring workflow progress...'') world0"
  have f0: "fetch_calls ?w = 0" by (simp add: world0_def)
  have "fst (poll_loop (service a succeeded_on_third tok) nm ns 0 ?w)
          = Inr (Some (wf_with_phase ''Succeeded'')) \<and>
        fetch_calls (snd (poll_loop (service a succeeded_on_third tok) nm ns 0 ?w))
          = fetch_calls ?w + Suc 2"
    by (rule poll_loop_reaches)
       (auto simp add: world0_def MAX_RETRIES_def example_service succeeded_on_third_def
                       non_terminal_answer_def example_phases less_2_cases_iff)
  then show ?thesis by (simp add: poll_workflow_status_def)
qed

lemma config_fields:
  "namespace (get_workflow_config repo) = fst (parse_repo_name repo) @ ''-deploy-wf''"
  "workflow_template_name (get_workflow_config repo)
     = fst (parse_repo_name repo) @ ''-workload-staging''"
  "workflow_url_base (get_workflow_config repo)
     = ARGO_HOST @ ''/workflows/'' @ fst (parse_repo_name repo) @ ''-deploy-wf''"
  by (simp_all add: get_workflow_config_def Let_def split_def)

lemma argoSubmit_submit_raises:
  assumes "api_submit_workflow (server tok) (namespace (get_workflow_config repo))
             (submitted_request repo env) = Inl e"
  shows "fst (argoSubmit server tok repo env ds w) = (1, [], [])"
    and "fetch_calls (snd (argoSubmit server tok repo env ds w)) = fetch_calls w"
    and "slept (snd (argoSubmit server tok repo env ds w)) = slept w"
    and "submit_calls (snd (argoSubmit server tok repo env ds w))
           = (if settings_usable ds then Suc (submit_calls w) else submit_calls w)"
proof -
  have "fst (argoSubmit server tok repo env ds w) = (1, [], []) \<and>
        fetch_calls (snd (argoSubmit server tok repo env ds w)) = fetch_calls w \<and>
        slept (snd (argoSubmit server tok repo env ds w)) = slept w \<and>
        submit_calls (snd (argoSubmit server tok repo env ds w))
           = (if settings_usable ds then Suc (submit_calls w) else submit_calls w)"
  proof (cases "settings_usable ds")
    case True
    then show ?thesis
      by (simp add: argoSubmit_usable submit_workflow_raises [OF assms])
  next
    case False
    then show ?thesis by (simp add: argoSubmit_unusable unexpected_def)
  qed
  then show "fst (argoSubmit server tok repo env ds w) = (1, [], [])"
    and "fetch_calls (snd (argoSubmit server tok repo env ds w)) = fetch_calls w"
    and "slept (snd (argoSubmit server tok repo env ds w)) = slept w"
    and "submit_calls (snd (argoSubmit server tok repo env ds w))
           = (if settings_usable ds then Suc (submit_calls w) else submit_calls w)"
    by simp_all
qed

lemma poll_workflow_status_reaches:
  assumes "j < MAX_RETRIES"
    and "\<forall>i<j. non_terminal_answer (api_get_workflow api (fetch_calls w + i) ns nm)"
    and "api_get_workflow api (fetch_calls w + j) ns nm = Inr (Some st)"
    and "is_terminal st"
  shows "\<exists>w2. poll_workflow_status api nm ns ub w = (Inr (Some st), w2) \<and>
              fetch_calls w2 = fetch_calls w + Suc j"
proof -
  let ?w = "logger Info (emoji_stopwatch @ '' Monitoring workflow progress...'') w"
  have "fst (poll_loop api nm ns 0 ?w) = Inr (Some st) \<and>
        fetch_calls (snd (poll_loop api nm ns 0 ?w)) = fetch_calls ?w + Suc j"
    using assms by (intro poll_loop_reaches) simp_all
  then show ?thesis
    by (cases "poll_loop api nm ns 0 ?w") (simp add: poll_workflow_status_def)
qed

lemma poll_workflow_status_exhausts:
  assumes "\<forall>k<MAX_RETRIES. non_terminal_answer (api_get_workflow api (fetch_calls w + k) ns nm)"
  shows "\<exists>w2. poll_workflow_status api nm ns ub w = (Inr None, w2) \<and>
              fetch_calls w2 = fetch_calls w + MAX_RETRIES"
proof -
  let ?w = "logger Info (emoji_stopwatch @ '' Monitoring workflow progress...'') w"
  have "fst (poll_loop api nm ns 0 ?w) = Inr None \<and>
        fetch_calls (snd (poll_loop api nm ns 0 ?w)) = fetch_calls ?w + MAX_RETRIES"
    using assms by (intro poll_loop_exhausts_window) simp_all
  then show ?thesis
    by (cases "poll_loop api nm ns 0 ?w") (simp add: poll_workflow_status_def)
qed

lemma argoSubmit_terminal:
  assumes u: "settings_usable ds"
    and s: "api_submit_workflow (server tok) (namespace (get_workflow_config repo))
              (submitted_request repo env) = Inr resp"
    and n: "metadata resp ''name'' = Some nm" and r: "metadata resp ''namespace'' = Some rns"
    and j: "j < MAX_RETRIES"
    and nt: "\<forall>i<j. non_terminal_answer (api_get_workflow (server tok) (fetch_calls w + i) rns nm)"
    and t: "api_get_workflow (server tok) (fetch_calls w + j) rns nm = Inr (Some st)"
    and ts: "is_terminal st"
  shows "fst (argoSubmit server tok repo env ds w) =
           (if phase_of st = ''Succeeded'' then 0 else 1, nm,
            workflow_url_base (get_workflow_config repo) @ ''/'' @ nm)"
proof -
  define w1 where "w1 = logger Info (emoji_sparkles @ '' Workflow submitted: '' @ nm @ '' in '' @ rns)
               (w\<lparr>submit_calls := Suc (submit_calls w)\<rparr>)"
  have sw: "submit_workflow (server tok) (submitted_request repo env)
              (namespace (get_workflow_config repo)) w = (Some (nm, rns, resp), w1)"
    unfolding w1_def by (rule submit_workflow_ok [OF s n r])
  have f: "fetch_calls w1 = fetch_calls w" by (simp add: w1_def)
  obtain w2 where pw: "poll_workflow_status (server tok) nm rns
                         (Some (workflow_url_base (get_workflow_config repo))) w1
                       = (Inr (Some st), w2)"
    using poll_workflow_status_reaches [of j "server tok" w1 rns nm st] j nt t ts f by auto
  have np: "phase_of st \<noteq> ''Running''" "phase_of st \<noteq> ''Pending''"
    using terminal_not_in_progress [OF ts] by simp_all
  show ?thesis
    using np by (simp add: argoSubmit_usable [OF u] sw pw)
qed

lemma argoSubmit_exhausted:
  assumes u: "settings_usable ds"
    and s: "api_submit_workflow (server tok) (namespace (get_workflow_config repo))
              (submitted_request repo env) = Inr resp"
    and n: "metadata resp ''name'' = Some nm" and r: "metadata resp ''namespace'' = Some rns"
    and nt: "\<forall>k<MAX_RETRIES.
               non_terminal_answer (api_get_workflow (server tok) (fetch_calls w + k) rns nm)"
  shows "fst (argoSubmit server tok repo env ds w) =
           (1, nm, workflow_url_base (get_workflow_config repo) @ ''/'' @ nm)"
    and "last (logged (snd (argoSubmit server tok repo env ds w))) =
           (Error, emoji_cross @ '' Workflow status could not be determined'')"
    and "fetch_calls (snd (argoSubmit server tok repo env ds w)) = fetch_calls w + MAX_RETRIES"
proof -
  define w1 where "w1 = logger Info (emoji_sparkles @ '' Workflow submitted: '' @ nm @ '' in '' @ rns)
               (w\<lparr>submit_calls := Suc (submit_calls w)\<rparr>)"
  have sw: "submit_workflow (server tok) (submitted_request repo env)
              (namespace (get_workflow_config repo)) w = (Some (nm, rns, resp), w1)"
    unfolding w1_def by (rule submit_workflow_ok [OF s n r])
  have f: "fetch_calls w1 = fetch_calls w" by (simp add: w1_def)
  have nt1: "\<forall>k<MAX_RETRIES.
               non_terminal_answer (api_get_workflow (server tok) (fetch_calls w1 + k) rns nm)"
    using nt by (simp only: f)
  obtain w2 where pw: "poll_workflow_status (server tok) nm rns
                         (Some (workflow_url_base (get_workflow_config repo))) w1
                       = (Inr None, w2)"
      and f2: "fetch_calls w2 = fetch_calls w1 + MAX_RETRIES"
    using poll_workflow_status_exhausts [OF nt1] by blast
  show "fst (argoSubmit server tok repo env ds w) =
           (1, nm, workflow_url_base (get_workflow_config repo) @ ''/'' @ nm)"
    by (simp add: argoSubmit_usable [OF u] sw pw)
  show "last (logged (snd (argoSubmit server tok repo env ds w))) =
           (Error, emoji_cross @ '' Workflow status could not be determined'')"
    by (simp add: argoSubmit_usable [OF u] sw pw)
  show "fetch_calls (snd (argoSubmit server tok repo env ds w)) = fetch_calls w + MAX_RETRIES"
    by (simp add: argoSubmit_usable [OF u] sw pw f2 f)
qed

lemma argoSubmit_settings_irrelevant:
  "settings_usable ds1 \<Longrightarrow> settings_usable ds2 \<Longrightarrow>
   argoSubmit server tok repo env ds1 w = argoSubmit server tok repo env ds2 w"
  by (simp add: argoSubmit_usable)

lemma example_usable:
  "settings_usable PNone"
  "settings_usable (PDict [(''app_branch'', PStr ''feature-x'')])"
  "\<not> settings_usable (PStr ''x'')"
  by (simp_all add: settings_usable_def)

lemma example_always_running:
  "\<forall>k. non_terminal_answer (api_get_workflow (service a always_running tok) k ns nm)"
  by (simp add: example_service always_running_def non_terminal_answer_def example_phases)

lemma example_always_running_window:
  "\<forall>k<MAX_RETRIES.
     non_terminal_answer (api_get_workflow (service a always_running tok) (n + k) ns nm)"
  by (simp add: example_always_running)

lemma example_running_then_succeeded:
  "\<forall>k<MAX_RETRIES.
     non_terminal_answer
       (api_get_workflow (service a running_then_succeeded tok) (fetch_calls world0 + k) ns nm)"
  "\<not> non_terminal_answer (api_get_workflow (service a running_then_succeeded tok) 120 ns nm)"
  by (simp_all add: example_service running_then_succeeded_def non_terminal_answer_def
                    example_phases MAX_RETRIES_def world0_def)

subsection \<open>More facts about splitting and settings\<close>

lemma py_split_butlast_no_sep:
  "p \<in> set (butlast (py_split s c n)) \<Longrightarrow> c \<notin> set p"
proof (induction n arbitrary: s)
  case 0
  then show ?case by simp
next
  case (Suc n)
  show ?case
  proof (cases "split_once c s")
    case None
    then show ?thesis using Suc.prems by simp
  next
    case (Some ab)
    obtain a b where ab: "ab = (a, b)" by (cases ab)
    have a: "c \<notin> set a" using Some ab split_once_SomeD by blast
    have ne: "py_split b c n \<noteq> []" using py_split_length_pos [of b c n] by auto
    from Suc.prems Some ab ne have "p = a \<or> p \<in> set (butlast (py_split b c n))" by simp
    then show ?thesis using a Suc.IH by blast
  qed
qed

lemma py_split_short_last_no_sep:
  "length (py_split s c n) < Suc n \<Longrightarrow> c \<notin> set (last (py_split s c n))"
proof (induction n arbitrary: s)
  case 0
  then show ?case by simp
next
  case (Suc n)
  show ?case
  proof (cases "split_once c s")
    case None
    then show ?thesis using split_once_None_iff [of c s] by simp
  next
    case (Some ab)
    obtain a b where ab: "ab = (a, b)" by (cases ab)
    have ne: "py_split b c n \<noteq> []" using py_split_length_pos [of b c n] by auto
    have "length (py_split b c n) < Suc n" using Suc.prems Some ab by simp
    then have "c \<notin> set (last (py_split b c n))" by (rule Suc.IH)
    then show ?thesis using Some ab ne by simp
  qed
qed

lemma py_split_two_parts_iff:
  "2 \<le> length (py_split s c 2) \<longleftrightarrow> c \<in> set s"
proof (cases "split_once c s")
  case None
  then show ?thesis using split_once_None_iff [of c s] by (simp add: numeral_2_eq_2)
next
  case (Some ab)
  obtain a b where ab: "ab = (a, b)" by (cases ab)
  have "c \<in> set s" using Some split_once_None_iff [of c s] by auto
  moreover have "1 \<le> length (py_split b c 1)" by (rule py_split_length_pos)
  ultimately show ?thesis using Some ab by (simp add: numeral_2_eq_2)
qed

lemma parse_repo_name_examples:
  "parse_repo_name ''api-service'' = (''api'', ''service'')"
  "parse_repo_name ''payments-billing-core'' = (''payments'', ''billing-core'')"
  "parse_repo_name ''standalone'' = (''standalone'', ''standalone'')"
  "parse_repo_name ''api-'' = (''api'', [])"
  by (simp_all add: parse_repo_name_def numeral_2_eq_2)

lemma dict_get_non_dict:
  "\<not> is_dict v \<Longrightarrow>
   dict_get v k d =
     Inl (AttributeError (quoted (type_name v) @ '' object has no attribute '' @ quoted ''get''))"
  by (cases v) simp_all

lemma first_sep_unique:
  fixes c :: char
  assumes "c \<notin> set a" and "c \<notin> set a'" and eq: "a @ c # b = a' @ c # b'"
  shows "a = a' \<and> b = b'"
proof -
  have "Some (a, b) = split_once c (a @ c # b)"
    using assms(1) by (simp add: split_once_append)
  also have "\<dots> = split_once c (a' @ c # b')" by (simp only: eq)
  also have "\<dots> = Some (a', b')"
    using assms(2) by (simp add: split_once_append)
  finally show ?thesis by simp
qed

section \<open>Properties of the specification\<close>

subsection \<open>The poll loop\<close>

text \<open>
  C6. The poll loop is bounded by \<open>MAX_RETRIES = 120\<close> iterations: when every answer of
  the status source is non-terminal (for instance the phase is always \<open>Running\<close>), the
  loop makes exactly 120 status fetches and then stops with no result (\<open>None\<close>), which
  is not a terminal status.
\<close>

theorem poll_budget_exhausted:
  assumes "\<forall>k. non_terminal_answer (api_get_workflow api k ns nm)"
  shows "fst (poll_workflow_status api nm ns url_base w) = Inr None \<and>
         fetch_calls (snd (poll_workflow_status api nm ns url_base w)) = fetch_calls w + 120 \<and>
         (\<forall>st. fst (poll_workflow_status api nm ns url_base w) \<noteq> Inr (Some st))"
  using poll_loop_exhausts [OF assms, of 0 120]
  by (simp add: poll_workflow_status_def MAX_RETRIES_def)

text \<open>The status source that always answers \<open>Running\<close>, from a fresh world.\<close>

theorem poll_budget_exhausted_witness:
  "fst (poll_workflow_status (service (Inr run_metadata) always_running ''token'')
          ''deploy-x7k2p'' ''api-deploy-wf'' None world0) = Inr None \<and>
   fetch_calls (snd (poll_workflow_status (service (Inr run_metadata) always_running ''token'')
          ''deploy-x7k2p'' ''api-deploy-wf'' None world0)) = 120"
proof -
  have h: "\<forall>k. non_terminal_answer
            (api_get_workflow (service (Inr run_metadata) always_running ''token'') k
               ''api-deploy-wf'' ''deploy-x7k2p'')"
    by (simp add: service_def always_running_def non_terminal_answer_def is_terminal_def
                  phase_of_def wf_with_phase_def)
  show ?thesis
    using poll_budget_exhausted [OF h, of None world0] by (simp add: world0_def)
qed

text \<open>
  C7. The poll loop returns as soon as the fetched phase is terminal (\<open>Succeeded\<close>,
  \<open>Failed\<close> or \<open>Error\<close>): when the first \<open>j\<close> answers are non-terminal and the next one
  is a workflow in a terminal phase, with \<open>j\<close> below the budget, the loop returns that
  workflow after exactly \<open>j + 1\<close> fetches. A workflow whose phase is \<open>Pending\<close>,
  \<open>Running\<close> or \<open>Unknown\<close> is a non-terminal answer: the loop goes on after it.
\<close>

theorem poll_returns_at_first_terminal:
  assumes "j < MAX_RETRIES"
    and "\<forall>i<j. non_terminal_answer (api_get_workflow api (fetch_calls w + i) ns nm)"
    and "api_get_workflow api (fetch_calls w + j) ns nm = Inr (Some st)"
    and "is_terminal st"
  shows "fst (poll_workflow_status api nm ns url_base w) = Inr (Some st) \<and>
         fetch_calls (snd (poll_workflow_status api nm ns url_base w)) = fetch_calls w + Suc j \<and>
         (\<forall>st'. phase_of st' \<in> set [''Pending'', ''Running'', ''Unknown'']
                \<longrightarrow> non_terminal_answer (Inr (Some st')))"
proof -
  let ?w = "logger Info (emoji_stopwatch @ '' Monitoring workflow progress...'') w"
  have "fst (poll_loop api nm ns 0 ?w) = Inr (Some st) \<and>
        fetch_calls (snd (poll_loop api nm ns 0 ?w)) = fetch_calls ?w + Suc j"
    using assms by (intro poll_loop_reaches) simp_all
  moreover have "\<forall>st'. phase_of st' \<in> set [''Pending'', ''Running'', ''Unknown'']
                \<longrightarrow> non_terminal_answer (Inr (Some st'))"
    by (auto simp add: non_terminal_answer_def is_terminal_def)
  ultimately show ?thesis by (simp add: poll_workflow_status_def)
qed

text \<open>
  The status source that answers \<open>Pending\<close>, \<open>Running\<close> and then \<open>Succeeded\<close>: three
  fetches.
\<close>

theorem poll_returns_at_first_terminal_witness:
  "fst (poll_workflow_status (service (Inr run_metadata) succeeded_on_third ''token'')
          ''deploy-x7k2p'' ''api-deploy-wf'' None world0) = Inr (Some (wf_with_phase ''Succeeded'')) \<and>
   fetch_calls (snd (poll_workflow_status (service (Inr run_metadata) succeeded_on_third ''token'')
          ''deploy-x7k2p'' ''api-deploy-wf'' None world0)) = 3 \<and>
   non_terminal_answer (Inr (Some (wf_with_phase ''Unknown'')))"
proof -
  let ?api = "service (Inr run_metadata) succeeded_on_third ''token''"
  have f0: "fetch_calls world0 = 0" by (simp add: world0_def)
  have h1: "(2::nat) < MAX_RETRIES" by (simp add: MAX_RETRIES_def)
  have h2: "\<forall>i<2. non_terminal_answer
              (api_get_workflow ?api (fetch_calls world0 + i) ''api-deploy-wf'' ''deploy-x7k2p'')"
    by (simp add: f0 service_def succeeded_on_third_def non_terminal_answer_def is_terminal_def
                  phase_of_def wf_with_phase_def)
  have h3: "api_get_workflow ?api (fetch_calls world0 + 2) ''api-deploy-wf'' ''deploy-x7k2p''
              = Inr (Some (wf_with_phase ''Succeeded''))"
    by (simp add: f0 service_def succeeded_on_third_def)
  have h4: "is_terminal (wf_with_phase ''Succeeded'')"
    by (simp add: is_terminal_def phase_of_def wf_with_phase_def)
  have p: "phase_of (wf_with_phase ''Unknown'') \<in> set [''Pending'', ''Running'', ''Unknown'']"
    by (simp add: phase_of_def wf_with_phase_def)
  note t = poll_returns_at_first_terminal [OF h1 h2 h3 h4, of None]
  have nt: "non_terminal_answer (Inr (Some (wf_with_phase ''Unknown'')))"
    using t p by blast
  show ?thesis
    using conjunct1 [OF t] conjunct1 [OF conjunct2 [OF t]] nt by (simp add: f0)
qed

subsection \<open>The whole operation\<close>

text \<open>
  C10. \<open>poll_workflow_status\<close> only ever returns \<open>None\<close> or a workflow whose phase is
  \<open>Succeeded\<close>, \<open>Failed\<close> or \<open>Error\<close>. Hence the branch of \<open>argoSubmit\<close> for a returned
  phase \<open>Running\<close> or \<open>Pending\<close> is never taken: the warning that this branch, and only
  this branch, logs is never added to the log, whatever the inputs and the service.
\<close>

theorem poll_result_terminal_progress_branch_dead:
  "(\<forall>st. fst (poll_workflow_status api nm ns url_base w) = Inr (Some st) \<longrightarrow>
         phase_of st \<in> set [''Succeeded'', ''Failed'', ''Error'']) \<and>
   count_list (logged (snd (argoSubmit server tok repo env ds w))) still_in_progress =
     count_list (logged w) still_in_progress"
proof -
  have "phase_of st \<in> set [''Succeeded'', ''Failed'', ''Error'']"
    if "fst (poll_workflow_status api nm ns url_base w) = Inr (Some st)" for st
    using that poll_workflow_status_frame(3) [of api nm ns url_base w _ _ st]
    by (cases "poll_workflow_status api nm ns url_base w") (simp add: is_terminal_def)
  then show ?thesis using argoSubmit_progress_branch_dead by blast
qed

text \<open>
  The service whose third status answer is \<open>Succeeded\<close>: the poll returns that workflow,
  and the run of \<open>argoSubmit\<close> from a fresh world logs no such warning.
\<close>

theorem poll_result_terminal_progress_branch_dead_witness:
  "fst (poll_workflow_status (service (Inr run_metadata) succeeded_on_third ''token'')
          ''deploy-x7k2p'' ''api-deploy-wf'' None world0) = Inr (Some (wf_with_phase ''Succeeded'')) \<and>
   phase_of (wf_with_phase ''Succeeded'') \<in> set [''Succeeded'', ''Failed'', ''Error''] \<and>
   count_list (logged (snd (argoSubmit (service (Inr run_metadata) succeeded_on_third) ''token''
                               ''api-service'' ''staging'' PNone world0))) still_in_progress = 0"
proof -
  note t = poll_result_terminal_progress_branch_dead
             [of "service (Inr run_metadata) succeeded_on_third ''token''"
                 "''deploy-x7k2p''" "''api-deploy-wf''" None world0
                 "service (Inr run_metadata) succeeded_on_third" "''token''"
                 "''api-service''" "''staging''" PNone]
  have a: "fst (poll_workflow_status (service (Inr run_metadata) succeeded_on_third ''token'')
          ''deploy-x7k2p'' ''api-deploy-wf'' None world0) = Inr (Some (wf_with_phase ''Succeeded''))"
    by (rule poll_succeeded_on_third)
  have b: "phase_of (wf_with_phase ''Succeeded'') \<in> set [''Succeeded'', ''Failed'', ''Error'']"
    using conjunct1 [OF t] a by blast
  have c: "count_list (logged (snd (argoSubmit (service (Inr run_metadata) succeeded_on_third) ''token''
                               ''api-service'' ''staging'' PNone world0))) still_in_progress = 0"
    using conjunct2 [OF t] by (simp add: world0_def)
  show ?thesis using a b c by blast
qed

text \<open>
  C5. If the submission call raises (any transport or server error), \<open>argoSubmit\<close>
  returns \<open>(1, "", "")\<close> at once: the submission is not retried (the call is made once
  when the deploy settings let the run reach it, and never twice), the poll loop is not
  entered (no status fetch) and nothing sleeps.
\<close>

theorem submission_failure_returns_at_once:
  assumes "api_submit_workflow (server tok) (namespace (get_workflow_config repo))
             (submitted_request repo env) = Inl e"
  shows "fst (argoSubmit server tok repo env ds w) = (1, [], []) \<and>
         submit_calls (snd (argoSubmit server tok repo env ds w)) \<le> Suc (submit_calls w) \<and>
         (settings_usable ds \<longrightarrow>
            submit_calls (snd (argoSubmit server tok repo env ds w)) = Suc (submit_calls w)) \<and>
         fetch_calls (snd (argoSubmit server tok repo env ds w)) = fetch_calls w \<and>
         slept (snd (argoSubmit server tok repo env ds w)) = slept w"
  using argoSubmit_submit_raises [where server = server and tok = tok and ds = ds and w = w, OF assms]
  by simp

text \<open>A service that answers the submission with a server error.\<close>

theorem submission_failure_returns_at_once_witness:
  "fst (argoSubmit (service (Inl (OtherException ''503 Service Unavailable'')) always_running)
          ''token'' ''api-service'' ''staging'' PNone world0) = (1, [], []) \<and>
   submit_calls (snd (argoSubmit (service (Inl (OtherException ''503 Service Unavailable''))
          always_running) ''token'' ''api-service'' ''staging'' PNone world0)) = 1 \<and>
   fetch_calls (snd (argoSubmit (service (Inl (OtherException ''503 Service Unavailable''))
          always_running) ''token'' ''api-service'' ''staging'' PNone world0)) = 0"
proof -
  let ?server = "service (Inl (OtherException ''503 Service Unavailable'')) always_running"
  have h: "api_submit_workflow (?server ''token'') (namespace (get_workflow_config ''api-service''))
             (submitted_request ''api-service'' ''staging'')
           = Inl (OtherException ''503 Service Unavailable'')"
    by (simp add: example_service)
  show ?thesis
    using submission_failure_returns_at_once
            [where server = ?server and tok = "''token''" and ds = PNone and w = world0, OF h]
          example_usable(1)
    by (simp add: world0_def)
qed

text \<open>
  C8. When the deploy settings let the run reach the submission, the submission
  succeeds with run name \<open>nm\<close>, and the first status fetch observes the phase
  \<open>Succeeded\<close>, \<open>argoSubmit\<close> returns \<open>(0, nm, url)\<close> with \<open>url\<close> the host, then
  \<open>/workflows/\<close>, the namespace \<open>capability-deploy-wf\<close> derived from the repository
  name, a slash and \<open>nm\<close>.
\<close>

theorem immediate_success_result:
  assumes "settings_usable ds"
    and "api_submit_workflow (server tok) (fst (parse_repo_name repo) @ ''-deploy-wf'')
           (submitted_request repo env) = Inr resp"
    and "metadata resp ''name'' = Some nm"
    and "metadata resp ''namespace'' = Some rns"
    and "api_get_workflow (server tok) (fetch_calls w) rns nm = Inr (Some st)"
    and "phase_of st = ''Succeeded''"
  shows "fst (argoSubmit server tok repo env ds w) =
           (0, nm, ARGO_HOST @ ''/workflows/'' @ fst (parse_repo_name repo) @ ''-deploy-wf''
                     @ ''/'' @ nm)"
proof -
  have ts: "is_terminal st" using assms(6) by (simp add: is_terminal_def)
  have "fst (argoSubmit server tok repo env ds w) =
           (if phase_of st = ''Succeeded'' then 0 else 1, nm,
            workflow_url_base (get_workflow_config repo) @ ''/'' @ nm)"
    using assms(1-5) ts
    by (intro argoSubmit_terminal
                [where j = 0 and resp = resp and rns = rns and server = server and tok = tok])
       (simp_all add: config_fields MAX_RETRIES_def)
  then show ?thesis using assms(6) by (simp add: config_fields)
qed

text \<open>The service that accepts the submission and answers \<open>Succeeded\<close> at once.\<close>

theorem immediate_success_result_witness:
  "fst (argoSubmit (service (Inr run_metadata) always_succeeded) ''token'' ''api-service''
          ''staging'' PNone world0)
     = (0, ''deploy-x7k2p'', ''https://your-argo-server.com/workflows/api-deploy-wf/deploy-x7k2p'')"
proof -
  let ?server = "service (Inr run_metadata) always_succeeded"
  have h2: "api_submit_workflow (?server ''token'') (fst (parse_repo_name ''api-service'') @ ''-deploy-wf'')
             (submitted_request ''api-service'' ''staging'') = Inr run_metadata"
    by (simp add: example_service)
  have h5: "api_get_workflow (?server ''token'') (fetch_calls world0) ''api-deploy-wf'' ''deploy-x7k2p''
              = Inr (Some (wf_with_phase ''Succeeded''))"
    by (simp add: example_service always_succeeded_def)
  show ?thesis
    using immediate_success_result
            [where server = ?server and tok = "''token''" and w = world0,
             OF example_usable(1) h2 example_metadata h5 example_phases(1)]
    by (simp add: example_config ARGO_HOST_def)
qed

text \<open>
  C1. The claim is that a run whose submission succeeds and whose poll loop exhausts its
  retry budget without reaching a terminal phase ends with exit code 0, as a run still in
  progress. The code does not do that. When the answers to the 120 status fetches of the
  loop are all non-terminal (whatever the service would answer later),
  \<open>poll_workflow_status\<close> returns no result instead of the last status, so \<open>argoSubmit\<close>
  takes the branch for an undetermined status: it returns exit code 1 with the workflow
  name and URL after exactly 120 fetches, and its last log record is the error that the
  status could not be determined. The branch of \<open>argoSubmit\<close> that returns 0 with the
  warning that the workflow is still in progress is never reached.
\<close>

theorem exhausted_budget_exit_code:
  assumes "settings_usable ds"
    and "api_submit_workflow (server tok) (fst (parse_repo_name repo) @ ''-deploy-wf'')
           (submitted_request repo env) = Inr resp"
    and "metadata resp ''name'' = Some nm"
    and "metadata resp ''namespace'' = Some rns"
    and "\<forall>k<MAX_RETRIES.
           non_terminal_answer (api_get_workflow (server tok) (fetch_calls w + k) rns nm)"
  shows "fst (argoSubmit server tok repo env ds w) =
           (1, nm, ARGO_HOST @ ''/workflows/'' @ fst (parse_repo_name repo) @ ''-deploy-wf''
                     @ ''/'' @ nm) \<and>
         fetch_calls (snd (argoSubmit server tok repo env ds w)) = fetch_calls w + 120 \<and>
         last (logged (snd (argoSubmit server tok repo env ds w))) =
           (Error, emoji_cross @ '' Workflow status could not be determined'') \<and>
         count_list (logged (snd (argoSubmit server tok repo env ds w))) still_in_progress =
           count_list (logged w) still_in_progress"
  using argoSubmit_exhausted [of ds server tok repo env resp nm rns w] assms
        argoSubmit_progress_branch_dead [of server tok repo env ds w]
  by (simp add: config_fields MAX_RETRIES_def)

text \<open>
  The service that accepts the submission and answers \<open>Running\<close> to the first 120
  fetches (and would answer \<open>Succeeded\<close> to the next one).
\<close>

theorem exhausted_budget_exit_code_witness:
  "fst (argoSubmit (service (Inr run_metadata) running_then_succeeded) ''token'' ''api-service''
          ''staging'' PNone world0)
     = (1, ''deploy-x7k2p'', ''https://your-argo-server.com/workflows/api-deploy-wf/deploy-x7k2p'') \<and>
   fetch_calls (snd (argoSubmit (service (Inr run_metadata) running_then_succeeded) ''token''
          ''api-service'' ''staging'' PNone world0)) = 120"
proof -
  let ?server = "service (Inr run_metadata) running_then_succeeded"
  have h2: "api_submit_workflow (?server ''token'') (fst (parse_repo_name ''api-service'') @ ''-deploy-wf'')
             (submitted_request ''api-service'' ''staging'') = Inr run_metadata"
    by (simp add: example_service)
  note t = exhausted_budget_exit_code
            [where server = ?server and tok = "''token''" and w = world0,
             OF example_usable(1) h2 example_metadata example_running_then_succeeded(1)]
  have a: "fst (argoSubmit ?server ''token'' ''api-service'' ''staging'' PNone world0)
     = (1, ''deploy-x7k2p'', ''https://your-argo-server.com/workflows/api-deploy-wf/deploy-x7k2p'')"
    using conjunct1 [OF t] by (simp add: example_config ARGO_HOST_def)
  have b: "fetch_calls (snd (argoSubmit ?server ''token'' ''api-service'' ''staging'' PNone
             world0)) = fetch_calls world0 + 120"
    by (rule conjunct1 [OF conjunct2 [OF t]])
  have c: "fetch_calls world0 = 0" by (simp add: world0_def)
  show ?thesis using a b unfolding c by simp
qed

text \<open>
  The run against the service that answers \<open>Running\<close> for ever: the submission is
  accepted, the poll loop returns no result, and the exit code is 1, not 0.
\<close>

theorem always_running_exit_code:
  "fst (submit_workflow (service (Inr run_metadata) always_running ''token'')
          (submitted_request ''api-service'' ''staging'') ''api-deploy-wf'' world0)
     = Some (''deploy-x7k2p'', ''api-deploy-wf'', run_metadata) \<and>
   fst (poll_workflow_status (service (Inr run_metadata) always_running ''token'')
          ''deploy-x7k2p'' ''api-deploy-wf''
          (Some ''https://your-argo-server.com/workflows/api-deploy-wf'')
          (snd (submit_workflow (service (Inr run_metadata) always_running ''token'')
                  (submitted_request ''api-service'' ''staging'') ''api-deploy-wf'' world0)))
     = Inr None \<and>
   fst (argoSubmit (service (Inr run_metadata) always_running) ''token'' ''api-service''
          ''staging'' PNone world0)
     = (1, ''deploy-x7k2p'', ''https://your-argo-server.com/workflows/api-deploy-wf/deploy-x7k2p'') \<and>
   fst (fst (argoSubmit (service (Inr run_metadata) always_running) ''token'' ''api-service''
          ''staging'' PNone world0)) \<noteq> 0"
proof -
  let ?server = "service (Inr run_metadata) always_running"
  have a: "fst (submit_workflow (?server ''token'')
          (submitted_request ''api-service'' ''staging'') ''api-deploy-wf'' world0)
     = Some (''deploy-x7k2p'', ''api-deploy-wf'', run_metadata)"
    by (subst submit_workflow_ok [where resp = run_metadata])
       (simp_all add: example_service example_metadata)
  have b: "fst (poll_workflow_status (?server ''token'') ''deploy-x7k2p'' ''api-deploy-wf'' ub w)
             = Inr None" for ub w
    using poll_workflow_status_exhausts
            [where api = "?server ''token''" and w = w and ns = "''api-deploy-wf''"
               and nm = "''deploy-x7k2p''" and ub = ub,
             OF example_always_running_window]
    by auto
  have s: "api_submit_workflow (?server ''token'') (namespace (get_workflow_config ''api-service''))
             (submitted_request ''api-service'' ''staging'') = Inr run_metadata"
    by (simp add: example_service)
  have c: "fst (argoSubmit ?server ''token'' ''api-service'' ''staging'' PNone world0)
     = (1, ''deploy-x7k2p'', ''https://your-argo-server.com/workflows/api-deploy-wf/deploy-x7k2p'')"
    using argoSubmit_exhausted(1)
            [where server = ?server and tok = "''token''" and w = world0,
             OF example_usable(1) s example_metadata example_always_running_window]
    by (simp add: example_config)
  show ?thesis using a b c by simp
qed

text \<open>
  C9, as the code has it. For any two deploy settings that are \<open>None\<close>, falsy or
  dictionaries, \<open>argoSubmit\<close> returns the same result and has the same effects, given the
  same other inputs and the same service; the branch passed to
  \<open>prepare_workflow_parameters\<close> never reaches the parameter list.
\<close>

theorem usable_settings_have_no_effect:
  "settings_usable ds1 \<and> settings_usable ds2 \<longrightarrow>
     argoSubmit server tok repo env ds1 w = argoSubmit server tok repo env ds2 w \<and>
     prepare_workflow_parameters env app b1 = prepare_workflow_parameters env app b2"
  using argoSubmit_settings_irrelevant [of ds1 ds2 server tok repo env w]
  by (simp add: prepare_workflow_parameters_def)

text \<open>A dictionary that names another branch, against \<open>None\<close>.\<close>

theorem usable_settings_have_no_effect_witness:
  "argoSubmit (service (Inr run_metadata) always_succeeded) ''token'' ''api-service'' ''staging''
     (PDict [(''app_branch'', PStr ''feature-x'')]) world0
   = argoSubmit (service (Inr run_metadata) always_succeeded) ''token'' ''api-service'' ''staging''
       PNone world0 \<and>
   prepare_workflow_parameters ''staging'' ''service'' (PStr ''feature-x'')
   = prepare_workflow_parameters ''staging'' ''service'' (PStr ''main'')"
  using usable_settings_have_no_effect
          [of "PDict [(''app_branch'', PStr ''feature-x'')]" PNone
              "service (Inr run_metadata) always_succeeded" "''token''" "''api-service''"
              "''staging''" world0 "''service''" "PStr ''feature-x''" "PStr ''main''"]
        example_usable
  by blast

text \<open>
  C9 as stated fails: a truthy value that is not a dictionary (here the string \<open>x\<close>,
  which \<open>get_deploy_settings\<close> returns for the settings \<open>{"main": "x"}\<close>) has no
  \<open>get\<close>; the exception is caught by the handler of \<open>argoSubmit\<close>, which returns
  \<open>(1, "", "")\<close> without any submission, whereas \<open>None\<close> leads to a submission and,
  with this service, to the result 0.
\<close>

theorem settings_have_effect_counterexample:
  "fst (argoSubmit (service (Inr run_metadata) always_succeeded) ''token'' ''api-service''
          ''staging'' (PStr ''x'') world0) = (1, [], []) \<and>
   submit_calls (snd (argoSubmit (service (Inr run_metadata) always_succeeded) ''token''
          ''api-service'' ''staging'' (PStr ''x'') world0)) = 0 \<and>
   fst (argoSubmit (service (Inr run_metadata) always_succeeded) ''token'' ''api-service''
          ''staging'' PNone world0)
     = (0, ''deploy-x7k2p'', ''https://your-argo-server.com/workflows/api-deploy-wf/deploy-x7k2p'')"
proof -
  let ?server = "service (Inr run_metadata) always_succeeded"
  have a: "argoSubmit ?server ''token'' ''api-service'' ''staging'' (PStr ''x'') world0
             = unexpected (AttributeError (quoted (type_name (PStr ''x''))
                 @ '' object has no attribute '' @ quoted ''get'')) world0"
    by (rule argoSubmit_unusable [OF example_usable(3)])
  have s: "api_submit_workflow (?server ''token'') (namespace (get_workflow_config ''api-service''))
             (submitted_request ''api-service'' ''staging'') = Inr run_metadata"
    by (simp add: example_service)
  have b: "fst (argoSubmit ?server ''token'' ''api-service'' ''staging'' PNone world0)
     = (0, ''deploy-x7k2p'', ''https://your-argo-server.com/workflows/api-deploy-wf/deploy-x7k2p'')"
    using argoSubmit_terminal
            [where server = ?server and tok = "''token''" and w = world0 and j = 0
               and st = "wf_with_phase ''Succeeded''", OF example_usable(1) s example_metadata]
    by (simp add: MAX_RETRIES_def example_service always_succeeded_def example_phases
                  example_config)
  have c: "fst (argoSubmit ?server ''token'' ''api-service'' ''staging'' (PStr ''x'') world0)
             = (1, [], [])"
    unfolding a unexpected_def by simp
  have d: "submit_calls (snd (argoSubmit ?server ''token'' ''api-service'' ''staging''
             (PStr ''x'') world0)) = 0"
    unfolding a unexpected_def by (simp add: world0_def)
  show ?thesis using b c d by blast
qed

subsection \<open>Identity derivation\<close>

text \<open>
  C4. \<open>parse_repo_name\<close> splits the repository name on the hyphen into at most 3 parts
  (at least 1; joining the parts with hyphens gives the name back, and only the third
  part can contain a hyphen). With 2 parts, capability is the first part and application
  the second; with 3 parts, application is the second part, a hyphen and the third part;
  with 1 part both are the full name. In particular \<open>api-service\<close> gives
  \<open>(api, service)\<close>, \<open>payments-billing-core\<close> gives \<open>(payments, billing-core)\<close> and
  \<open>standalone\<close> gives \<open>(standalone, standalone)\<close>.
\<close>

theorem parse_repo_name_by_parts:
  "1 \<le> length (py_split repo_name (CHR ''-'') 2) \<and>
   length (py_split repo_name (CHR ''-'') 2) \<le> 3 \<and>
   py_join ''-'' (py_split repo_name (CHR ''-'') 2) = repo_name \<and>
   (\<forall>p \<in> set (butlast (py_split repo_name (CHR ''-'') 2)). CHR ''-'' \<notin> set p) \<and>
   (length (py_split repo_name (CHR ''-'') 2) < 3 \<longrightarrow>
      CHR ''-'' \<notin> set (last (py_split repo_name (CHR ''-'') 2))) \<and>
   (\<forall>a. py_split repo_name (CHR ''-'') 2 = [a] \<longrightarrow>
      parse_repo_name repo_name = (repo_name, repo_name)) \<and>
   (\<forall>a b. py_split repo_name (CHR ''-'') 2 = [a, b] \<longrightarrow>
      parse_repo_name repo_name = (a, b)) \<and>
   (\<forall>a b c. py_split repo_name (CHR ''-'') 2 = [a, b, c] \<longrightarrow>
      parse_repo_name repo_name = (a, b @ ''-'' @ c)) \<and>
   parse_repo_name ''api-service'' = (''api'', ''service'') \<and>
   parse_repo_name ''payments-billing-core'' = (''payments'', ''billing-core'') \<and>
   parse_repo_name ''standalone'' = (''standalone'', ''standalone'')"
proof -
  have 1: "1 \<le> length (py_split repo_name (CHR ''-'') 2)" by (rule py_split_length_pos)
  have 2: "length (py_split repo_name (CHR ''-'') 2) \<le> 3"
    using py_split_length_le [of repo_name "CHR ''-''" 2] by simp
  have 3: "py_join ''-'' (py_split repo_name (CHR ''-'') 2) = repo_name"
    by (rule py_join_py_split)
  have 4: "\<forall>p \<in> set (butlast (py_split repo_name (CHR ''-'') 2)). CHR ''-'' \<notin> set p"
    using py_split_butlast_no_sep by blast
  have 5: "length (py_split repo_name (CHR ''-'') 2) < 3 \<longrightarrow>
      CHR ''-'' \<notin> set (last (py_split repo_name (CHR ''-'') 2))"
    using py_split_short_last_no_sep [of repo_name "CHR ''-''" 2] by simp
  have 6: "\<forall>a. py_split repo_name (CHR ''-'') 2 = [a] \<longrightarrow>
      parse_repo_name repo_name = (repo_name, repo_name)"
    by (simp add: parse_repo_name_def)
  have 7: "\<forall>a b. py_split repo_name (CHR ''-'') 2 = [a, b] \<longrightarrow>
      parse_repo_name repo_name = (a, b)"
    by (simp add: parse_repo_name_def)
  have 8: "\<forall>a b c. py_split repo_name (CHR ''-'') 2 = [a, b, c] \<longrightarrow>
      parse_repo_name repo_name = (a, b @ ''-'' @ c)"
    by (simp add: parse_repo_name_def)
  show ?thesis
    using 1 2 3 4 5 6 7 8 parse_repo_name_examples(1-3) by blast
qed

text \<open>A name of three parts, one of two and one of one.\<close>

theorem parse_repo_name_by_parts_witness:
  "py_split ''payments-billing-core'' (CHR ''-'') 2 = [''payments'', ''billing'', ''core''] \<and>
   parse_repo_name ''payments-billing-core'' = (''payments'', ''billing'' @ ''-'' @ ''core'') \<and>
   py_split ''api-service'' (CHR ''-'') 2 = [''api'', ''service''] \<and>
   parse_repo_name ''api-service'' = (''api'', ''service'') \<and>
   py_split ''standalone'' (CHR ''-'') 2 = [''standalone''] \<and>
   parse_repo_name ''standalone'' = (''standalone'', ''standalone'') \<and>
   CHR ''-'' \<notin> set (last (py_split ''standalone'' (CHR ''-'') 2)) \<and>
   CHR ''-'' \<notin> set ''payments'' \<and> CHR ''-'' \<notin> set ''billing''"
proof -
  have s3: "py_split ''payments-billing-core'' (CHR ''-'') 2 = [''payments'', ''billing'', ''core'']"
    by (simp add: numeral_2_eq_2)
  have s2: "py_split ''api-service'' (CHR ''-'') 2 = [''api'', ''service'']"
    by (simp add: numeral_2_eq_2)
  have s1: "py_split ''standalone'' (CHR ''-'') 2 = [''standalone'']"
    by (simp add: numeral_2_eq_2)
  have p3: "parse_repo_name ''payments-billing-core'' = (''payments'', ''billing'' @ ''-'' @ ''core'')"
    using parse_repo_name_by_parts [of "''payments-billing-core''"] s3 by blast
  have p2: "parse_repo_name ''api-service'' = (''api'', ''service'')"
    using parse_repo_name_by_parts [of "''api-service''"] s2 by blast
  have p1: "parse_repo_name ''standalone'' = (''standalone'', ''standalone'')"
    using parse_repo_name_by_parts [of "''standalone''"] s1 by blast
  have l1: "CHR ''-'' \<notin> set (last (py_split ''standalone'' (CHR ''-'') 2))"
    using parse_repo_name_by_parts [of "''standalone''"] s1 by simp
  have b3: "\<forall>p \<in> set (butlast (py_split ''payments-billing-core'' (CHR ''-'') 2)).
      CHR ''-'' \<notin> set p"
    using parse_repo_name_by_parts [of "''payments-billing-core''"] by (elim conjE)
  have b4: "CHR ''-'' \<notin> set ''payments'' \<and> CHR ''-'' \<notin> set ''billing''"
    using b3 unfolding s3 by simp
  show ?thesis
    by (intro conjI) (rule s3, rule p3, rule s2, rule p2, rule s1, rule p1, rule l1,
                      rule conjunct1 [OF b4], rule conjunct2 [OF b4])
qed

text \<open>
  C2, as the code has it. For a repository name with at least 2 hyphen-separated
  segments, the application is empty exactly when the only hyphen of the name is its
  last character (the name is some hyphen-free string followed by one hyphen), and
  non-empty otherwise; for a name with no hyphen, capability and application both equal
  the full name.
\<close>

theorem application_empty_iff_trailing_hyphen:
  "(2 \<le> length (py_split repo_name (CHR ''-'') 2) \<longrightarrow>
      (snd (parse_repo_name repo_name) = [] \<longleftrightarrow>
         (\<exists>a. repo_name = a @ ''-'' \<and> CHR ''-'' \<notin> set a))) \<and>
   (CHR ''-'' \<notin> set repo_name \<longrightarrow> parse_repo_name repo_name = (repo_name, repo_name))"
proof (intro conjI impI)
  assume "2 \<le> length (py_split repo_name (CHR ''-'') 2)"
  then have h: "CHR ''-'' \<in> set repo_name" by (simp add: py_split_two_parts_iff)
  from split_first_hyphen [OF h]
  obtain a b where ab: "repo_name = a @ CHR ''-'' # b" "CHR ''-'' \<notin> set a"
    by (elim exE conjE)
  have p: "parse_repo_name repo_name = (a, b)"
    unfolding ab(1) using ab(2) by (rule parse_repo_name_hyphen)
  show "snd (parse_repo_name repo_name) = [] \<longleftrightarrow>
          (\<exists>a. repo_name = a @ ''-'' \<and> CHR ''-'' \<notin> set a)"
  proof
    assume "snd (parse_repo_name repo_name) = []"
    then have "b = []" by (simp add: p)
    then have "repo_name = a @ ''-''" by (simp add: ab(1))
    then have "repo_name = a @ ''-'' \<and> CHR ''-'' \<notin> set a" using ab(2) by (rule conjI)
    then show "\<exists>a. repo_name = a @ ''-'' \<and> CHR ''-'' \<notin> set a" by (rule exI)
  next
    assume "\<exists>a. repo_name = a @ ''-'' \<and> CHR ''-'' \<notin> set a"
    then obtain a' where a': "repo_name = a' @ ''-''" "CHR ''-'' \<notin> set a'"
      by (elim exE conjE)
    have "a @ CHR ''-'' # b = a' @ CHR ''-'' # []"
      using ab(1) a'(1) by simp
    from first_sep_unique [OF ab(2) a'(2) this] have "b = []" by (rule conjunct2)
    then show "snd (parse_repo_name repo_name) = []" by (simp add: p)
  qed
next
  assume "CHR ''-'' \<notin> set repo_name"
  then show "parse_repo_name repo_name = (repo_name, repo_name)"
    by (rule parse_repo_name_no_hyphen)
qed

text \<open>
  Two names of at least 2 segments with a non-empty application (the second one ends with
  a hyphen that is not its only one), the name \<open>api-\<close> with an empty application, and a
  name with no hyphen.
\<close>

theorem application_empty_iff_trailing_hyphen_witness:
  "2 \<le> length (py_split ''api-service'' (CHR ''-'') 2) \<and>
   snd (parse_repo_name ''api-service'') \<noteq> [] \<and>
   2 \<le> length (py_split ''a-b-'' (CHR ''-'') 2) \<and>
   snd (parse_repo_name ''a-b-'') \<noteq> [] \<and>
   2 \<le> length (py_split ''api-'' (CHR ''-'') 2) \<and>
   snd (parse_repo_name ''api-'') = [] \<and>
   CHR ''-'' \<notin> set ''standalone'' \<and>
   parse_repo_name ''standalone'' = (''standalone'', ''standalone'')"
proof -
  have h1: "2 \<le> length (py_split ''api-service'' (CHR ''-'') 2)"
    by (simp add: numeral_2_eq_2)
  have h2: "2 \<le> length (py_split ''a-b-'' (CHR ''-'') 2)"
    by (simp add: numeral_2_eq_2)
  have h3: "2 \<le> length (py_split ''api-'' (CHR ''-'') 2)"
    by (simp add: numeral_2_eq_2)
  have h4: "CHR ''-'' \<notin> set ''standalone''" by simp
  have n1: "\<not> (\<exists>a. ''api-service'' = a @ ''-'' \<and> CHR ''-'' \<notin> set a)"
  proof
    assume "\<exists>a. ''api-service'' = a @ ''-'' \<and> CHR ''-'' \<notin> set a"
    then obtain a where e: "''api-service'' = a @ ''-''" by (elim exE conjE)
    from arg_cong [OF e, of last] show False by simp
  qed
  have n2: "\<not> (\<exists>a. ''a-b-'' = a @ ''-'' \<and> CHR ''-'' \<notin> set a)"
  proof
    assume "\<exists>a. ''a-b-'' = a @ ''-'' \<and> CHR ''-'' \<notin> set a"
    then obtain a where e: "''a-b-'' = a @ ''-''" and na: "CHR ''-'' \<notin> set a"
      by (elim exE conjE)
    have "''a-b'' @ ''-'' = a @ ''-''" using e by simp
    then have "a = ''a-b''" by (simp only: append_same_eq)
    then show False using na by simp
  qed
  have y3: "\<exists>a. ''api-'' = a @ ''-'' \<and> CHR ''-'' \<notin> set a"
    by (rule exI [of _ "''api''"]) simp
  note i1 = mp [OF conjunct1 [OF application_empty_iff_trailing_hyphen [of "''api-service''"]] h1]
  note i2 = mp [OF conjunct1 [OF application_empty_iff_trailing_hyphen [of "''a-b-''"]] h2]
  note i3 = mp [OF conjunct1 [OF application_empty_iff_trailing_hyphen [of "''api-''"]] h3]
  have a: "snd (parse_repo_name ''api-service'') \<noteq> []"
    unfolding i1 by (rule n1)
  have b: "snd (parse_repo_name ''a-b-'') \<noteq> []"
    unfolding i2 by (rule n2)
  have c: "snd (parse_repo_name ''api-'') = []"
    unfolding i3 by (rule y3)
  have d: "parse_repo_name ''standalone'' = (''standalone'', ''standalone'')"
    using conjunct2 [OF application_empty_iff_trailing_hyphen [of "''standalone''"]] h4
    by (rule mp)
  show ?thesis
    by (intro conjI) (rule h1, rule a, rule h2, rule b, rule h3, rule c, rule h4, rule d)
qed

text \<open>
  C2 as stated fails: \<open>api-\<close> has 2 hyphen-separated segments (the second is empty),
  and its application is the empty string.
\<close>

theorem empty_application_counterexample:
  "py_split ''api-'' (CHR ''-'') 2 = [''api'', []] \<and>
   2 \<le> length (py_split ''api-'' (CHR ''-'') 2) \<and>
   snd (parse_repo_name ''api-'') = []"
  by (simp add: parse_repo_name_def numeral_2_eq_2)

subsection \<open>Settings resolution\<close>

text \<open>
  C3. \<open>get_deploy_settings\<close> is meant never to raise: a missing or empty input gives the
  default \<open>{app_branch: main}\<close>, and an input that \<open>json.loads\<close> rejects is logged and
  gives the default. But an input that decodes to a value other than a dictionary (a
  number, a string, a list, \<open>null\<close>, ...) makes \<open>settings.get\<close> raise
  \<open>AttributeError\<close>, which the handler for \<open>JSONDecodeError\<close> does not catch: the
  exception reaches the caller.
\<close>

theorem get_deploy_settings_outcomes:
  "fst (get_deploy_settings loads None branch w) = Inr default_settings \<and>
   fst (get_deploy_settings loads (Some []) branch w) = Inr default_settings \<and>
   (s \<noteq> [] \<and> loads s = Inl (JSONDecodeError m) \<longrightarrow>
      get_deploy_settings loads (Some s) branch w =
        (Inr default_settings, logger Error (''Error parsing settings: '' @ m) w)) \<and>
   (s \<noteq> [] \<and> loads s = Inr v \<and> \<not> is_dict v \<longrightarrow>
      fst (get_deploy_settings loads (Some s) branch w) =
        Inl (AttributeError (quoted (type_name v) @ '' object has no attribute ''
                             @ quoted ''get'')))"
  by (simp add: get_deploy_settings_def dict_get_non_dict)

text \<open>
  The input \<open>1\<close>, which \<open>json.loads\<close> decodes to the integer 1, and the input
  \<open>not-json\<close>, which it rejects.
\<close>

theorem get_deploy_settings_outcomes_witness:
  "fst (get_deploy_settings (\<lambda>s. Inr (PInt 1)) (Some ''1'') ''main'' world0) =
     Inl (AttributeError (quoted ''int'' @ '' object has no attribute '' @ quoted ''get'')) \<and>
   get_deploy_settings (\<lambda>s. Inl (JSONDecodeError ''Expecting value: line 1 column 1 (char 0)''))
       (Some ''not-json'') ''main'' world0 =
     (Inr default_settings,
      logger Error (''Error parsing settings: '' @ ''Expecting value: line 1 column 1 (char 0)'')
        world0)"
proof -
  have a: "fst (get_deploy_settings (\<lambda>s. Inr (PInt 1)) (Some ''1'') ''main'' world0) =
     Inl (AttributeError (quoted ''int'' @ '' object has no attribute '' @ quoted ''get''))"
    using get_deploy_settings_outcomes
            [of "\<lambda>s. Inr (PInt 1)" "''main''" world0 "''1''" _ "PInt 1"]
    by simp
  have b: "get_deploy_settings
       (\<lambda>s. Inl (JSONDecodeError ''Expecting value: line 1 column 1 (char 0)''))
       (Some ''not-json'') ''main'' world0 =
     (Inr default_settings,
      logger Error (''Error parsing settings: '' @ ''Expecting value: line 1 column 1 (char 0)'')
        world0)"
    using get_deploy_settings_outcomes
            [of "\<lambda>s. Inl (JSONDecodeError ''Expecting value: line 1 column 1 (char 0)'')"
                "''main''" world0 "''not-json''"
                "''Expecting value: line 1 column 1 (char 0)''"]
    by simp
  show ?thesis using a b by blast
qed

end
